theory Spec2Isabelle
  imports Main "HOL-Library.Word"
begin

unbundle bit_operations_syntax

section \<open>Data model of the TCP multiplexed stream transport\<close>

type_synonym byte = "8 word"

text \<open>\<^verbatim>\<open>Chunk\<close>: an owned, contiguous byte buffer (a \<^verbatim>\<open>std::vector<uint8>\<close>).\<close>

type_synonym Chunk = "byte list"

text \<open>The three cases of the \<^verbatim>\<open>switch(reliability)\<close> in \<^verbatim>\<open>TCPStream::send\<close>.\<close>

datatype StreamReliability = Unreliable | ReliableOrdered | ReliableUnordered

text \<open>\<^verbatim>\<open>MultiplexedSocket::RawRequest\<close>, with the fields \<^verbatim>\<open>send\<close> writes.\<close>

record RawRequest =
  originStream :: nat
  unordered :: bool
  unreliable :: bool
  data :: Chunk

text \<open>
  The members of \<^verbatim>\<open>TCPStream\<close>: \<^verbatim>\<open>mSocket\<close> is a shared pointer to a multiplexed
  socket (\<open>None\<close> is the null pointer, \<open>Some a\<close> the socket at address \<open>a\<close>), \<^verbatim>\<open>mID\<close> the
  stream id, \<^verbatim>\<open>mSendStatus\<close> the address of the stream's atomic send-status word.
\<close>

record TCPStream =
  mSocket :: "nat option"
  mID :: nat
  mSendStatus :: nat

definition getID :: "TCPStream \<Rightarrow> nat" where
  "getID s = mID s"

text \<open>
  \<^verbatim>\<open>StreamID\<close>, \<^verbatim>\<open>uint30\<close> and the constant \<^verbatim>\<open>SendStatusClosing\<close> are declared in headers
  that are not part of the sources at hand, so they are parameters of the model:
  \<open>StreamID_bytes i\<close> is the byte string \<^verbatim>\<open>StreamID(i).serialize\<close> produces,
  \<open>uint30_bytes n\<close> the byte string \<^verbatim>\<open>uint30(n).serialize\<close> produces for a \<^verbatim>\<open>size_t\<close>
  value \<open>n\<close>, and the two \<^verbatim>\<open>MAX_SERIALIZED_LENGTH\<close> constants size the local arrays.
\<close>

record codec =
  StreamID_bytes :: "nat \<Rightarrow> byte list"
  StreamID_MAX_SERIALIZED_LENGTH :: nat
  uint30_bytes :: "nat \<Rightarrow> byte list"
  uint30_MAX_SERIALIZED_LENGTH :: nat
  SendStatusClosing :: "32 word"

text \<open>
  Everything a call does beyond returning: the atomic operations on the send-status
  word, the calls into \<^verbatim>\<open>MultiplexedSocket\<close>, the release of a chunk and log entries.
\<close>

datatype effect =
    AtomicIncrement
  | AtomicDecrement
  | AtomicAdd "32 word"
  | SendBytes "nat option" RawRequest
  | DeleteChunk Chunk
  | SILOG string string string
  | AddCallbacksNULL nat nat
  | CloseStream nat nat

datatype error = AssertionFailed | OutOfBounds | NullDereference

section \<open>Building the frame (TCPStream::send, lines 51 to 89)\<close>

text \<open>
  \<^verbatim>\<open>x.serialize(buffer, maxsize)\<close> returns the number of bytes the value needs and leaves
  them in the array when they fit. Array cells the call does not write are shown as 0;
  nothing below reads them.
\<close>

definition serialize :: "byte list \<Rightarrow> nat \<Rightarrow> byte list \<times> nat" where
  "serialize bs maxsize =
     (if length bs \<le> maxsize then bs @ replicate (maxsize - length bs) 0
      else replicate maxsize 0,
      length bs)"

text \<open>
  \<^verbatim>\<open>std::memcpy(dst + off, src, n)\<close> on arrays of known size. Reading or writing past the
  end of an array is undefined in C++ and is an error value here.
\<close>

definition memcpy :: "byte list \<Rightarrow> nat \<Rightarrow> byte list \<Rightarrow> nat \<Rightarrow> error + byte list" where
  "memcpy dst off src n =
     (if n \<le> length src \<and> off + n \<le> length dst
      then Inr (take off dst @ take n src @ drop (off + n) dst)
      else Inl OutOfBounds)"

definition reliability_flags :: "StreamReliability \<Rightarrow> bool \<times> bool" where
  "reliability_flags reliability =
     (case reliability of
        Unreliable \<Rightarrow> (True, True)
      | ReliableOrdered \<Rightarrow> (False, False)
      | ReliableUnordered \<Rightarrow> (True, False))"

definition send_encode ::
  "codec \<Rightarrow> TCPStream \<Rightarrow> Chunk \<Rightarrow> StreamReliability \<Rightarrow> error + RawRequest" where
  "send_encode c s dat reliability =
     (let (unord, unrel) = reliability_flags reliability;
          origin = getID s;
          streamIdLength = StreamID_MAX_SERIALIZED_LENGTH c;
          (serializedStreamId, successLengthNeeded) =
             serialize (StreamID_bytes c origin) streamIdLength
      in if \<not> successLengthNeeded \<le> streamIdLength then Inl AssertionFailed
         else
           let streamIdLength = successLengthNeeded;
               totalSize = length dat + streamIdLength;
               (packetLengthSerialized, packetHeaderLength) =
                  serialize (uint30_bytes c totalSize) (uint30_MAX_SERIALIZED_LENGTH c);
               outputBuffer = replicate (totalSize + packetHeaderLength) (0 :: byte)
           in case memcpy outputBuffer 0 packetLengthSerialized packetHeaderLength of
                Inl e \<Rightarrow> Inl e
              | Inr b1 \<Rightarrow>
                 (case memcpy b1 packetHeaderLength serializedStreamId streamIdLength of
                    Inl e \<Rightarrow> Inl e
                  | Inr b2 \<Rightarrow>
                     (case (if length dat \<noteq> 0
                            then memcpy b2 (packetHeaderLength + streamIdLength) dat (length dat)
                            else Inr b2) of
                        Inl e \<Rightarrow> Inl e
                      | Inr b3 \<Rightarrow>
                          Inr \<lparr>originStream = origin, unordered = unord,
                               unreliable = unrel, data = b3\<rparr>)))"

section \<open>Send-status coordination (TCPStream::send, lines 90 to 104)\<close>

text \<open>
  The closing field of a send-status value: \<^verbatim>\<open>sendStatus&(3*SendStatusClosing)\<close>.
\<close>

definition closing_field :: "codec \<Rightarrow> 32 word \<Rightarrow> 32 word" where
  "closing_field c v = v AND (3 * SendStatusClosing c)"

text \<open>Decimal output of \<^verbatim>\<open>operator<<\<close> for the integer \<^verbatim>\<open>getID().read()\<close>.\<close>

function decimal :: "nat \<Rightarrow> string" where
  "decimal n = (if n < 10 then [''0123456789'' ! n]
                else decimal (n div 10) @ [''0123456789'' ! (n mod 10)])"
  by pat_completeness auto
termination
  by (relation "measure id") auto

declare decimal.simps [simp del]

definition closed_stream_log :: "TCPStream \<Rightarrow> effect" where
  "closed_stream_log s =
     SILOG ''tcpsst'' ''debug'' (''printing to closed stream id '' @ decimal (getID s))"

text \<open>
  A call of \<^verbatim>\<open>send\<close> touches the shared send-status word twice, at \<^verbatim>\<open>++(*mSendStatus)\<close>
  and \<^verbatim>\<open>--(*mSendStatus)\<close>; other threads may run in between. The call is therefore a
  sequence of steps, each with at most one atomic access:
  \<^item> \<open>S_entry\<close>: the call has its arguments (line 50);
  \<^item> \<open>S_incremented\<close>: the frame is built and \<open>sendStatus\<close> holds the value read back by the
    increment (after line 92);
  \<^item> \<open>S_attempted\<close>: the test of line 93 is done and \<open>didsend\<close> is known (after line 96);
  \<^item> \<open>S_decremented\<close>: after line 98;
  \<^item> \<open>S_returned\<close>: the call has returned (no call is in progress);
  \<^item> \<open>S_failed\<close>: the call stopped at the assertion or at an access out of bounds.
\<close>

datatype send_pc =
    S_entry Chunk StreamReliability
  | S_incremented RawRequest "32 word"
  | S_attempted RawRequest bool
  | S_decremented RawRequest bool
  | S_returned
  | S_failed error

fun send_step ::
  "codec \<Rightarrow> TCPStream \<Rightarrow> send_pc \<times> 32 word \<Rightarrow> (send_pc \<times> 32 word) \<times> effect list" where
  "send_step c s (S_entry dat reliability, w) =
     (case send_encode c s dat reliability of
        Inl e \<Rightarrow> ((S_failed e, w), [])
      | Inr toBeSent \<Rightarrow> ((S_incremented toBeSent (w + 1), w + 1), [AtomicIncrement]))"
| "send_step c s (S_incremented toBeSent sendStatus, w) =
     (if closing_field c sendStatus = 0
      then ((S_attempted toBeSent True, w), [SendBytes (mSocket s) toBeSent])
      else ((S_attempted toBeSent False, w), []))"
| "send_step c s (S_attempted toBeSent didsend, w) =
     ((S_decremented toBeSent didsend, w - 1), [AtomicDecrement])"
| "send_step c s (S_decremented toBeSent didsend, w) =
     (if \<not> didsend
      then ((S_returned, w), [DeleteChunk (data toBeSent), closed_stream_log s])
      else ((S_returned, w), []))"
| "send_step c s (S_returned, w) = ((S_returned, w), [])"
| "send_step c s (S_failed e, w) = ((S_failed e, w), [])"

text \<open>
  Running the steps of one call. Before each step the other threads change the word by
  the next element of \<open>ds\<close> (0 when nobody interferes), so that every interleaving is
  covered from the point of view of the call; the length of \<open>ds\<close> bounds the number of
  steps taken, and a call that has not reached its return within them is still running.
\<close>

fun run_call ::
  "('pc \<times> 32 word \<Rightarrow> ('pc \<times> 32 word) \<times> effect list) \<Rightarrow> 32 word list \<Rightarrow> 'pc \<times> 32 word
     \<Rightarrow> ('pc \<times> 32 word) \<times> effect list" where
  "run_call step [] cfg = (cfg, [])"
| "run_call step (d # ds) (pc, w) =
     (let (cfg', es) = step (pc, w + d);
          (cfg'', es') = run_call step ds cfg'
      in (cfg'', es @ es'))"

text \<open>
  \<^verbatim>\<open>TCPStream::send(data, reliability)\<close> started with the word at \<open>w\<close>: the final
  program point and word, and the effects in program order. Four steps complete a call.
\<close>

definition send ::
  "codec \<Rightarrow> TCPStream \<Rightarrow> Chunk \<Rightarrow> StreamReliability \<Rightarrow> 32 word list \<Rightarrow> 32 word
     \<Rightarrow> (send_pc \<times> 32 word) \<times> effect list" where
  "send c s dat reliability ds w = run_call (send_step c s) ds (S_entry dat reliability, w)"

section \<open>TCPStream::closeSendStatus and TCPStream::close (lines 106 to 128)\<close>

text \<open>
  The program points of \<^verbatim>\<open>closeSendStatus\<close>:
  \<^item> \<open>CS_entry\<close>: the call has started (line 106);
  \<^item> \<open>CS_read\<close>: \<open>sendStatus\<close> holds the value read at line 107;
  \<^item> \<open>CS_spin\<close>: the \<^verbatim>\<open>if\<close> of lines 109 to 113 is done and \<open>incd\<close> is known; the call is at
    the loop of line 115;
  \<^item> \<open>CS_returned\<close>: the loop has ended and the call has returned.
  The read of line 107 and the addition of line 111 are separate atomic accesses.
\<close>

datatype closeSendStatus_pc =
    CS_entry
  | CS_read "32 word"
  | CS_spin bool
  | CS_returned bool

fun closeSendStatus_step ::
  "codec \<Rightarrow> closeSendStatus_pc \<times> 32 word \<Rightarrow> (closeSendStatus_pc \<times> 32 word) \<times> effect list"
  where
  "closeSendStatus_step c (CS_entry, w) = ((CS_read w, w), [])"
| "closeSendStatus_step c (CS_read sendStatus, w) =
     (if closing_field c sendStatus = 0
      then ((CS_spin True, w + SendStatusClosing c), [AtomicAdd (SendStatusClosing c)])
      else ((CS_spin False, w), []))"
| "closeSendStatus_step c (CS_spin incd, w) =
     (if w \<noteq> SendStatusClosing c \<and> w \<noteq> 2 * SendStatusClosing c
         \<and> w \<noteq> 3 * SendStatusClosing c
      then ((CS_spin incd, w), [])
      else ((CS_returned incd, w), []))"
| "closeSendStatus_step c (CS_returned incd, w) = ((CS_returned incd, w), [])"

definition closeSendStatus ::
  "codec \<Rightarrow> 32 word list \<Rightarrow> 32 word \<Rightarrow> (closeSendStatus_pc \<times> 32 word) \<times> effect list" where
  "closeSendStatus c ds w = run_call (closeSendStatus_step c) ds (CS_entry, w)"

text \<open>The values the word takes at the successive steps of a call started at \<open>w\<close>.\<close>

fun reads :: "32 word \<Rightarrow> 32 word list \<Rightarrow> 32 word list" where
  "reads w [] = []"
| "reads w (d # ds) = (w + d) # reads (w + d) ds"

definition drained_value :: "codec \<Rightarrow> 32 word \<Rightarrow> bool" where
  "drained_value c v \<longleftrightarrow>
     v = SendStatusClosing c \<or> v = 2 * SendStatusClosing c \<or> v = 3 * SendStatusClosing c"

text \<open>
  The program points of \<^verbatim>\<open>close\<close>: inside \<^verbatim>\<open>closeSendStatus\<close> (line 123), after the
  callbacks are removed (line 125), returned (after line 127). \<^verbatim>\<open>mSocket->\<close> on a null
  pointer stops the call.
\<close>

datatype close_pc =
    Cl_closeSendStatus closeSendStatus_pc
  | Cl_callbacks_removed
  | Cl_returned
  | Cl_failed error

fun close_step ::
  "codec \<Rightarrow> TCPStream \<Rightarrow> close_pc \<times> 32 word \<Rightarrow> (close_pc \<times> 32 word) \<times> effect list" where
  "close_step c s (Cl_closeSendStatus (CS_returned incd), w) =
     (case mSocket s of
        None \<Rightarrow> ((Cl_failed NullDereference, w), [])
      | Some a \<Rightarrow> ((Cl_callbacks_removed, w), [AddCallbacksNULL a (getID s)]))"
| "close_step c s (Cl_closeSendStatus pc, w) =
     (let ((pc', w'), es) = closeSendStatus_step c (pc, w)
      in ((Cl_closeSendStatus pc', w'), es))"
| "close_step c s (Cl_callbacks_removed, w) =
     (case mSocket s of
        None \<Rightarrow> ((Cl_failed NullDereference, w), [])
      | Some a \<Rightarrow> ((Cl_returned, w), [CloseStream a (getID s)]))"
| "close_step c s (Cl_returned, w) = ((Cl_returned, w), [])"
| "close_step c s (Cl_failed e, w) = ((Cl_failed e, w), [])"

definition close ::
  "codec \<Rightarrow> TCPStream \<Rightarrow> 32 word list \<Rightarrow> 32 word \<Rightarrow> (close_pc \<times> 32 word) \<times> effect list" where
  "close c s ds w = run_call (close_step c s) ds (Cl_closeSendStatus CS_entry, w)"

section \<open>TCPStream::cloneFrom (lines 146 to 162)\<close>

text \<open>
  \<^verbatim>\<open>Stream*\<close>: a pointer to an object of some class implementing the \<^verbatim>\<open>Stream\<close> interface,
  \<open>None\<close> for the null pointer. \<^verbatim>\<open>dynamic_cast<TCPStream*>\<close> yields the object when it is a
  \<^verbatim>\<open>TCPStream\<close> and null otherwise.
\<close>

datatype Stream = TCPStream_object TCPStream | Other_Stream_object

fun dynamic_cast_TCPStream :: "Stream option \<Rightarrow> TCPStream option" where
  "dynamic_cast_TCPStream None = None"
| "dynamic_cast_TCPStream (Some (TCPStream_object t)) = Some t"
| "dynamic_cast_TCPStream (Some Other_Stream_object) = None"

text \<open>
  The object built by \<^verbatim>\<open>new Callbacks(connectionCallback, bytesReceivedCallback, mSendStatus)\<close>.
\<close>

record ('c, 'b) Callbacks =
  mConnectionCallback :: 'c
  mBytesReceivedCallback :: 'b
  mSendStatusPointer :: nat

text \<open>
  Modelled from the spec: \<^verbatim>\<open>MultiplexedSocket.hpp\<close> is missing. The result of
  \<^verbatim>\<open>addCallbacks\<close> is "DISCONNECTED if the socket is not Connected, otherwise OK".
\<close>

datatype addCallbacks_result = OK | DISCONNECTED

text \<open>
  \<^verbatim>\<open>MultiplexedSocket::getNewID\<close> and \<^verbatim>\<open>MultiplexedSocket::addCallbacks\<close> are defined in a
  file that is missing, so they are parameters: functions of the state of the socket
  they are called on, returning their result and the new state of that socket. Sockets
  live in a store indexed by address, since several streams share one socket.
\<close>

record ('sock, 'c, 'b) MultiplexedSocket_ops =
  getNewID :: "'sock \<Rightarrow> nat \<times> 'sock"
  addCallbacks :: "'sock \<Rightarrow> nat \<Rightarrow> ('c, 'b) Callbacks option \<Rightarrow> addCallbacks_result \<times> 'sock"

text \<open>
  \<^verbatim>\<open>this->cloneFrom(otherStream, connectionCallback, bytesReceivedCallback)\<close>: the value
  returned, the members of \<^verbatim>\<open>this\<close> and the sockets afterwards.
\<close>

definition cloneFrom ::
  "('sock, 'c, 'b) MultiplexedSocket_ops \<Rightarrow> TCPStream \<Rightarrow> (nat \<Rightarrow> 'sock) \<Rightarrow> Stream option
     \<Rightarrow> 'c \<Rightarrow> 'b \<Rightarrow> bool \<times> TCPStream \<times> (nat \<Rightarrow> 'sock)" where
  "cloneFrom ops this sockets otherStream connectionCallback bytesReceivedCallback =
     (case dynamic_cast_TCPStream otherStream of
        None \<Rightarrow> (False, this, sockets)
      | Some toBeCloned \<Rightarrow>
          (let this1 = this\<lparr>mSocket := mSocket toBeCloned\<rparr>
           in case mSocket this1 of
                None \<Rightarrow> (False, this1, sockets)
              | Some a \<Rightarrow>
                  (let (newID, sock1) = getNewID ops (sockets a);
                       this2 = this1\<lparr>mID := newID\<rparr>;
                       (result, sock2) =
                          addCallbacks ops sock1 newID
                            (Some \<lparr>mConnectionCallback = connectionCallback,
                                   mBytesReceivedCallback = bytesReceivedCallback,
                                   mSendStatusPointer = mSendStatus this2\<rparr>)
                   in (result \<noteq> DISCONNECTED, this2, sockets(a := sock2)))))"

text \<open>
  Modelled from the spec: \<^verbatim>\<open>MultiplexedSocket.cpp\<close> is missing. The specification gives the
  socket a counter \<^verbatim>\<open>next_local_stream_id\<close>, a lifecycle state and a table from stream ids
  to callback sets; "\<^verbatim>\<open>new_id()\<close> returns \<^verbatim>\<open>next_local_stream_id\<close>, then increments by 2";
  "\<^verbatim>\<open>add_callbacks(sid, cbs)\<close> installs the callback set; a NULL value means delete and
  refuse further delivery. Returns DISCONNECTED if the socket is not Connected, otherwise
  OK". Stream ids are natural numbers without a bound here. Concrete inputs below use
  this instance; the theorems hold for every \<^verbatim>\<open>getNewID\<close> and \<^verbatim>\<open>addCallbacks\<close>.
\<close>

datatype lifecycle = Unconnected | Connecting | Connected | Draining | Disconnected

record ('c, 'b) spec_socket =
  next_local_stream_id :: nat
  socket_state :: lifecycle
  callback_table :: "nat \<Rightarrow> ('c, 'b) Callbacks option"

definition new_id :: "('c, 'b) spec_socket \<Rightarrow> nat \<times> ('c, 'b) spec_socket" where
  "new_id sock =
     (next_local_stream_id sock,
      sock\<lparr>next_local_stream_id := next_local_stream_id sock + 2\<rparr>)"

definition add_callbacks ::
  "('c, 'b) spec_socket \<Rightarrow> nat \<Rightarrow> ('c, 'b) Callbacks option
     \<Rightarrow> addCallbacks_result \<times> ('c, 'b) spec_socket" where
  "add_callbacks sock sid cbs =
     (if socket_state sock = Connected then OK else DISCONNECTED,
      sock\<lparr>callback_table := (callback_table sock)(sid := cbs)\<rparr>)"

definition spec_socket_ops :: "(('c, 'b) spec_socket, 'c, 'b) MultiplexedSocket_ops" where
  "spec_socket_ops = \<lparr>getNewID = new_id, addCallbacks = add_callbacks\<rparr>"

text \<open>A socket of the initiating side that has given out stream id 1.\<close>

definition socket3 :: "lifecycle \<Rightarrow> (unit, unit) spec_socket" where
  "socket3 st = \<lparr>next_local_stream_id = 3, socket_state = st, callback_table = (\<lambda>_. None)\<rparr>"

definition fresh_stream :: TCPStream where
  "fresh_stream = \<lparr>mSocket = None, mID = 0, mSendStatus = 7\<rparr>"

section \<open>IOServiceFactory (IOServiceFactory.cpp)\<close>

text \<open>
  The variables of the translation unit: the once flag \<^verbatim>\<open>io_singleton\<close> (\<open>True\<close> once the
  initializer has run), the flag \<^verbatim>\<open>called_io_service\<close>, whether the function-local
  \<^verbatim>\<open>static IOService io\<close> of \<^verbatim>\<open>io_service_initializer\<close> has been constructed, and the
  function-local \<^verbatim>\<open>static IOService*io\<close> of \<^verbatim>\<open>singletonIOService\<close>, initially \<^verbatim>\<open>NULL\<close>
  (\<open>None\<close>). \<^verbatim>\<open>IOService\<close> objects are addresses; \<^verbatim>\<open>makeIOService\<close> hands out fresh ones
  and \<^verbatim>\<open>delete\<close> records the address.
\<close>

record factory =
  io_singleton :: bool
  called_io_service :: bool
  static_io_constructed :: bool
  singleton_io_pointer :: "nat option"
  next_IOService :: nat
  deleted_IOServices :: "nat list"

definition factory_initial :: factory where
  "factory_initial =
     \<lparr>io_singleton = False, called_io_service = False, static_io_constructed = False,
      singleton_io_pointer = None, next_IOService = 1, deleted_IOServices = []\<rparr>"

text \<open>The address of the \<^verbatim>\<open>static IOService io\<close> inside \<^verbatim>\<open>io_service_initializer\<close>.\<close>

definition static_io_address :: nat where
  "static_io_address = 0"

text \<open>
  \<^verbatim>\<open>io_service_initializer(IOService*io_ret)\<close>: the parameter is passed by value, so the
  assignment \<^verbatim>\<open>io_ret=&io\<close> changes the local copy only. The result is the new state of
  the variables and the value of the local \<open>io_ret\<close> when the function returns.
\<close>

definition io_service_initializer :: "factory \<Rightarrow> nat option \<Rightarrow> factory \<times> nat option" where
  "io_service_initializer f io_ret =
     (let f1 = f\<lparr>static_io_constructed := True\<rparr>;
          f2 = f1\<lparr>called_io_service := True\<rparr>;
          io_ret = Some static_io_address
      in (f2, io_ret))"

text \<open>
  \<^verbatim>\<open>boost::call_once(io_singleton, boost::bind(io_service_initializer, io))\<close>: the bound
  argument is a copy of the pointer \<open>io\<close>; the initializer runs the first time only.
\<close>

definition call_once_io_service_initializer :: "factory \<Rightarrow> factory" where
  "call_once_io_service_initializer f =
     (if io_singleton f then f
      else (fst (io_service_initializer f (singleton_io_pointer f)))\<lparr>io_singleton := True\<rparr>)"

text \<open>
  \<^verbatim>\<open>singletonIOService()\<close>: \<^verbatim>\<open>return *io\<close> dereferences the static pointer; on a null
  pointer this is an error value.
\<close>

definition singletonIOService :: "factory \<Rightarrow> factory \<times> (error + nat)" where
  "singletonIOService f =
     (let f1 = call_once_io_service_initializer f
      in (f1, case singleton_io_pointer f1 of
                None \<Rightarrow> Inl NullDereference
              | Some a \<Rightarrow> Inr a))"

definition makeIOService :: "factory \<Rightarrow> factory \<times> nat" where
  "makeIOService f = (f\<lparr>next_IOService := next_IOService f + 1\<rparr>, next_IOService f)"

definition delete_IOService :: "factory \<Rightarrow> nat option \<Rightarrow> factory" where
  "delete_IOService f io =
     (case io of
        None \<Rightarrow> f
      | Some a \<Rightarrow> f\<lparr>deleted_IOServices := a # deleted_IOServices f\<rparr>)"

definition destroyIOService :: "factory \<Rightarrow> nat option \<Rightarrow> factory \<times> (error + unit)" where
  "destroyIOService f io =
     (if called_io_service f = False then (delete_IOService f io, Inr ())
      else
        (case singletonIOService f of
           (f1, Inl e) \<Rightarrow> (f1, Inl e)
         | (f1, Inr a) \<Rightarrow>
             if Some a \<noteq> io then (delete_IOService f1 io, Inr ()) else (f1, Inr ())))"

text \<open>Any sequence of calls of the three functions, from the initial state.\<close>

datatype factory_call =
    Call_singletonIOService
  | Call_makeIOService
  | Call_destroyIOService "nat option"

fun factory_call_step :: "factory \<Rightarrow> factory_call \<Rightarrow> factory" where
  "factory_call_step f Call_singletonIOService = fst (singletonIOService f)"
| "factory_call_step f Call_makeIOService = fst (makeIOService f)"
| "factory_call_step f (Call_destroyIOService io) = fst (destroyIOService f io)"

definition factory_after :: "factory_call list \<Rightarrow> factory" where
  "factory_after calls = foldl factory_call_step factory_initial calls"

section \<open>The codec of the specification\<close>

text \<open>
  Modelled from the spec: the headers declaring \<^verbatim>\<open>StreamID\<close>, \<^verbatim>\<open>uint30\<close> and
  \<^verbatim>\<open>SendStatusClosing\<close> are missing. The specification gives the serialization as
  "low bit of each byte signals continuation; remaining 7 bits are the magnitude,
  little-endian", a \<^verbatim>\<open>MAX_SERIALIZED_LENGTH\<close> of 9 bytes for stream ids and of 5 bytes for
  the length prefix, and \<^verbatim>\<open>SendStatusClosing\<close> as "a power of two larger than the maximum
  concurrent sender count", for which \<open>2 ^ 29\<close> is taken. Concrete inputs below use
  this instance; the theorems hold for every codec.
\<close>

function varint :: "nat \<Rightarrow> byte list" where
  "varint n = (if n < 128 then [of_nat (2 * n)]
               else of_nat (2 * (n mod 128) + 1) # varint (n div 128))"
  by pat_completeness auto
termination
  by (relation "measure id") auto

declare varint.simps [simp del]

definition spec_codec :: codec where
  "spec_codec =
     \<lparr>StreamID_bytes = varint, StreamID_MAX_SERIALIZED_LENGTH = 9,
      uint30_bytes = varint, uint30_MAX_SERIALIZED_LENGTH = 5,
      SendStatusClosing = 2 ^ 29\<rparr>"

text \<open>
  A payload of \<open>2 ^ 30\<close> zero bytes, and the messages of the log entries among the
  effects of a call.
\<close>

definition payload_2_30 :: Chunk where
  "payload_2_30 = replicate (2 ^ 30) 0"

fun logged :: "effect list \<Rightarrow> string list" where
  "logged [] = []"
| "logged (SILOG tag level msg # es) = msg # logged es"
| "logged (e # es) = logged es"

definition hello :: Chunk where
  "hello = [104, 101, 108, 108, 111]"

definition stream1 :: TCPStream where
  "stream1 = \<lparr>mSocket = Some 0, mID = 1, mSendStatus = 0\<rparr>"

section \<open>Concurrent senders and closers on one send-status word\<close>

text \<open>
  Up to two threads call \<^verbatim>\<open>send\<close> on one stream, each any number of times in sequence, and
  up to three threads call \<^verbatim>\<open>closeSendStatus\<close> on the stream's word, each once. The atomic
  accesses of the calls interleave in any order: a schedule is a list of actions, each
  letting one thread start a call of \<^verbatim>\<open>send\<close> or take the next step of its call. A thread
  that is never scheduled does not take part.
\<close>

datatype sender = Sender1 | Sender2

datatype closer = Closer1 | Closer2 | Closer3

datatype thread = Sending sender | Closing closer


text \<open>
  The state of the system: the send-status word, the program point of each thread, and
  the effects so far with the thread that performed each, newest first.
\<close>

record system =
  word :: "32 word"
  senders :: "sender \<Rightarrow> send_pc"
  closers :: "closer \<Rightarrow> closeSendStatus_pc"
  trace :: "(thread \<times> effect) list"

















section \<open>The frame built by send\<close>

lemma send_encode_frame:
  assumes S: "length (StreamID_bytes c (mID s)) \<le> StreamID_MAX_SERIALIZED_LENGTH c"
    and H: "length (uint30_bytes c (length dat + length (StreamID_bytes c (mID s))))
              \<le> uint30_MAX_SERIALIZED_LENGTH c"
  shows "send_encode c s dat reliability =
           Inr \<lparr>originStream = mID s,
                unordered = fst (reliability_flags reliability),
                unreliable = snd (reliability_flags reliability),
                data = uint30_bytes c (length dat + length (StreamID_bytes c (mID s)))
                         @ StreamID_bytes c (mID s) @ dat\<rparr>"
  using S H
  by (cases "dat = []")
     (simp_all add: send_encode_def serialize_def getID_def Let_def memcpy_def
         split: prod.splits)


lemma send_four_steps:
  "send_encode c s dat reliability = Inr req \<Longrightarrow>
   send c s dat reliability [d1, d2, d3, d4] w =
     ((S_returned, w + d1 + d2 + d3 + d4),
      if closing_field c (w + d1 + 1) = 0
      then [AtomicIncrement, SendBytes (mSocket s) req, AtomicDecrement]
      else [AtomicIncrement, AtomicDecrement, DeleteChunk (data req), closed_stream_log s])"
  by (simp add: send_def)

subsection \<open>Facts about the concrete inputs\<close>

lemma varint_length: "0 < k \<Longrightarrow> n < 128 ^ k \<Longrightarrow> length (varint n) \<le> k"
proof (induction k arbitrary: n)
  case 0
  then show ?case by simp
next
  case (Suc k)
  show ?case
  proof (cases "n < 128")
    case True
    then show ?thesis by (simp add: varint.simps)
  next
    case False
    with Suc.prems have k: "0 < k" by (cases k) auto
    from Suc.prems have "n div 128 < 128 ^ k"
      by (simp add: less_mult_imp_div_less mult.commute)
    with Suc.IH k have "length (varint (n div 128)) \<le> k" by blast
    with False show ?thesis by (subst varint.simps) simp
  qed
qed

lemma varint_1: "varint (Suc 0) = [2]"
  by (simp add: varint.simps)

lemma varint_6: "varint 6 = [12]"
  by (simp add: varint.simps)

lemma varint_2_30_1: "varint 1073741825 = [3, 1, 1, 1, 8]"
  by (simp add: varint.simps)

lemma decimal_1: "decimal (Suc 0) = ''1''"
  by (simp add: decimal.simps)

lemma length_payload_2_30: "length payload_2_30 = 1073741824"
  by (simp add: payload_2_30_def)

lemma StreamID_bytes_stream1: "StreamID_bytes spec_codec (mID stream1) = [2]"
  by (simp add: spec_codec_def stream1_def varint_1)

lemma length_hello_frame: "length hello + length [2 :: byte] = 6"
  by (simp add: hello_def)

lemma length_payload_2_30_frame: "length payload_2_30 + length [2 :: byte] = 1073741825"
  by (simp add: length_payload_2_30)

lemma uint30_bytes_6: "uint30_bytes spec_codec 6 = [12]"
  by (simp add: spec_codec_def varint_6)

lemma uint30_bytes_2_30_1: "uint30_bytes spec_codec 1073741825 = [3, 1, 1, 1, 8]"
  by (simp add: spec_codec_def varint_2_30_1)

lemma send_encode_hello:
  "send_encode spec_codec stream1 hello reliability =
     Inr \<lparr>originStream = 1, unordered = fst (reliability_flags reliability),
          unreliable = snd (reliability_flags reliability),
          data = [12, 2, 104, 101, 108, 108, 111]\<rparr>"
  using send_encode_frame [of spec_codec stream1 hello reliability]
  unfolding StreamID_bytes_stream1 length_hello_frame uint30_bytes_6
  by (simp add: spec_codec_def stream1_def hello_def)

lemma send_encode_payload_2_30:
  "send_encode spec_codec stream1 payload_2_30 reliability =
     Inr \<lparr>originStream = 1, unordered = fst (reliability_flags reliability),
          unreliable = snd (reliability_flags reliability),
          data = [3, 1, 1, 1, 8, 2] @ payload_2_30\<rparr>"
  using send_encode_frame [of spec_codec stream1 payload_2_30 reliability]
  unfolding StreamID_bytes_stream1 length_payload_2_30_frame uint30_bytes_2_30_1
  by (simp add: spec_codec_def stream1_def)

section \<open>Claims about TCPStream::send\<close>




text \<open>
  C3. For a payload of length \<open>L\<close> and a stream id serialized to \<open>S\<close> bytes with
  \<open>L + S < 2 ^ 30\<close>, \<^verbatim>\<open>send\<close> builds one buffer of \<open>H + L + S\<close> bytes: the \<open>H\<close> bytes of the
  serialized \<^verbatim>\<open>uint30\<close> of value \<open>L + S\<close>, then the \<open>S\<close> bytes of the stream id, then the
  payload unchanged. The serializers are those of the codec, which keep within their
  \<^verbatim>\<open>MAX_SERIALIZED_LENGTH\<close>: the stream id as the assertion of line 72 demands, the
  \<^verbatim>\<open>uint30\<close> for every value below \<open>2 ^ 30\<close>.
\<close>

theorem C3_frame_layout:
  assumes "length dat + length (StreamID_bytes c (mID s)) < 2 ^ 30"
    and "length (StreamID_bytes c (mID s)) \<le> StreamID_MAX_SERIALIZED_LENGTH c"
    and "\<forall>n < 2 ^ 30. length (uint30_bytes c n) \<le> uint30_MAX_SERIALIZED_LENGTH c"
  shows "\<exists>req. send_encode c s dat reliability = Inr req \<and>
           data req = uint30_bytes c (length dat + length (StreamID_bytes c (mID s)))
                        @ StreamID_bytes c (mID s) @ dat \<and>
           length (data req) =
             length (uint30_bytes c (length dat + length (StreamID_bytes c (mID s))))
               + length dat + length (StreamID_bytes c (mID s))"
proof -
  from assms(1,3)
  have "length (uint30_bytes c (length dat + length (StreamID_bytes c (mID s))))
          \<le> uint30_MAX_SERIALIZED_LENGTH c"
    by blast
  from send_encode_frame [OF assms(2) this, of reliability] show ?thesis
    by simp
qed

theorem C3_frame_layout_witness:
  "\<exists>req. send_encode spec_codec stream1 hello ReliableOrdered = Inr req \<and>
     data req = [12, 2, 104, 101, 108, 108, 111] \<and> length (data req) = 7"
proof -
  have cap: "\<forall>n < 2 ^ 30. length (uint30_bytes spec_codec n)
               \<le> uint30_MAX_SERIALIZED_LENGTH spec_codec"
  proof (intro allI impI)
    fix n :: nat
    assume "n < 2 ^ 30"
    then have "n < 128 ^ 5" by simp
    then have "length (varint n) \<le> 5" by (intro varint_length) simp_all
    then show "length (uint30_bytes spec_codec n) \<le> uint30_MAX_SERIALIZED_LENGTH spec_codec"
      by (simp add: spec_codec_def)
  qed
  have small: "length hello + length (StreamID_bytes spec_codec (mID stream1)) < 2 ^ 30"
    unfolding StreamID_bytes_stream1 length_hello_frame by simp
  have fits: "length (StreamID_bytes spec_codec (mID stream1))
                \<le> StreamID_MAX_SERIALIZED_LENGTH spec_codec"
    by (simp add: spec_codec_def stream1_def varint_1)
  from C3_frame_layout [OF small fits cap, of ReliableOrdered]
  obtain req where req: "send_encode spec_codec stream1 hello ReliableOrdered = Inr req"
    and dat: "data req = [12] @ [2] @ hello"
    unfolding StreamID_bytes_stream1 length_hello_frame uint30_bytes_6 by blast
  from dat have "data req = [12, 2, 104, 101, 108, 108, 111]" by (simp add: hello_def)
  with req show ?thesis by simp
qed

text \<open>
  C2, as stated, fails: a reliable-ordered send of \<open>2 ^ 30\<close> bytes on stream 1 with no
  closer present returns normally after handing the frame to \<^verbatim>\<open>sendBytes\<close>.
\<close>

theorem C2_payload_2_30_is_enqueued:
  "send spec_codec stream1 payload_2_30 ReliableOrdered [0, 0, 0, 0] 0 =
     ((S_returned, 0),
      [AtomicIncrement,
       SendBytes (Some 0)
         \<lparr>originStream = 1, unordered = False, unreliable = False,
          data = [3, 1, 1, 1, 8, 2] @ payload_2_30\<rparr>,
       AtomicDecrement])"
  by (subst send_four_steps [OF send_encode_payload_2_30])
     (simp add: closing_field_def spec_codec_def stream1_def reliability_flags_def)

text \<open>
  C2, amended. For a payload of length \<open>L\<close> and a stream id serialized to \<open>S\<close> bytes with
  \<open>L + S \<ge> 2 ^ 30\<close>, \<^verbatim>\<open>send\<close> has no size check and no failure for the size: when the two
  serializations fit their arrays it builds the frame from the bytes of
  \<^verbatim>\<open>uint30(L + S)\<close>, and when its increment finds no closer it hands that frame to
  \<^verbatim>\<open>sendBytes\<close>, decrements and returns normally, under every interleaving.
\<close>

theorem C2_no_size_check:
  assumes "2 ^ 30 \<le> length dat + length (StreamID_bytes c (mID s))"
    and "length (StreamID_bytes c (mID s)) \<le> StreamID_MAX_SERIALIZED_LENGTH c"
    and "length (uint30_bytes c (length dat + length (StreamID_bytes c (mID s))))
           \<le> uint30_MAX_SERIALIZED_LENGTH c"
    and "closing_field c (w + d1 + 1) = 0"
  shows "send c s dat reliability [d1, d2, d3, d4] w =
     ((S_returned, w + d1 + d2 + d3 + d4),
      [AtomicIncrement,
       SendBytes (mSocket s)
         \<lparr>originStream = mID s,
          unordered = fst (reliability_flags reliability),
          unreliable = snd (reliability_flags reliability),
          data = uint30_bytes c (length dat + length (StreamID_bytes c (mID s)))
                   @ StreamID_bytes c (mID s) @ dat\<rparr>,
       AtomicDecrement])"
  using send_four_steps [OF send_encode_frame [OF assms(2,3), of reliability], of d1 d2 d3 d4 w]
    assms(4)
  by simp

theorem C2_no_size_check_witness:
  "2 ^ 30 \<le> length payload_2_30 + length (StreamID_bytes spec_codec (mID stream1)) \<and>
   closing_field spec_codec (1 + 0 + 1) = 0 \<and>
   send spec_codec stream1 payload_2_30 Unreliable [0, 0, 0, 0] 1 =
     ((S_returned, 1),
      [AtomicIncrement,
       SendBytes (Some 0)
         \<lparr>originStream = 1, unordered = True, unreliable = True,
          data = [3, 1, 1, 1, 8, 2] @ payload_2_30\<rparr>,
       AtomicDecrement])"
proof -
  have big: "2 ^ 30 \<le> length payload_2_30 + length (StreamID_bytes spec_codec (mID stream1))"
    unfolding StreamID_bytes_stream1 length_payload_2_30_frame by simp
  have fits: "length (StreamID_bytes spec_codec (mID stream1))
                \<le> StreamID_MAX_SERIALIZED_LENGTH spec_codec"
    by (simp add: spec_codec_def stream1_def varint_1)
  have cap: "length (uint30_bytes spec_codec
                (length payload_2_30 + length (StreamID_bytes spec_codec (mID stream1))))
               \<le> uint30_MAX_SERIALIZED_LENGTH spec_codec"
    unfolding StreamID_bytes_stream1 length_payload_2_30_frame uint30_bytes_2_30_1
    by (simp add: spec_codec_def)
  have nocloser: "closing_field spec_codec (1 + 0 + 1) = 0"
    by (simp add: closing_field_def spec_codec_def)
  have "send spec_codec stream1 payload_2_30 Unreliable [0, 0, 0, 0] 1 =
     ((S_returned, 1),
      [AtomicIncrement,
       SendBytes (Some 0)
         \<lparr>originStream = 1, unordered = True, unreliable = True,
          data = [3, 1, 1, 1, 8, 2] @ payload_2_30\<rparr>,
       AtomicDecrement])"
    using C2_no_size_check [OF big fits cap nocloser, of Unreliable 0 0 0]
    unfolding StreamID_bytes_stream1 length_payload_2_30_frame uint30_bytes_2_30_1
    by (simp add: stream1_def reliability_flags_def)
  with big nocloser show ?thesis by blast
qed

text \<open>
  C4, as stated, fails in the text of the log entry: a send on stream 1 that finds a
  closer present logs "printing to closed stream id 1" and nothing else.
\<close>

theorem C4_log_text_differs:
  "logged (snd (send spec_codec stream1 hello ReliableOrdered [0, 0, 0, 0] (2 ^ 29))) =
     [''printing to closed stream id 1''] \<and>
   ''send to closed stream''
     \<notin> set (logged (snd (send spec_codec stream1 hello ReliableOrdered [0, 0, 0, 0] (2 ^ 29))))"
  by (subst (1 2) send_four_steps [OF send_encode_hello])
     (simp add: closing_field_def spec_codec_def closed_stream_log_def getID_def stream1_def
        decimal_1)

text \<open>
  C4, amended. A call of \<^verbatim>\<open>send\<close> whose increment reads back a value with a non-zero
  closing field does not hand the frame to \<^verbatim>\<open>sendBytes\<close>, decrements the word once,
  frees the encoded chunk, records the debug log entry "printing to closed stream id "
  followed by the stream id in decimal, and returns normally, under every interleaving.
\<close>

theorem C4_send_to_closing_stream:
  assumes "send_encode c s dat reliability = Inr toBeSent"
    and "closing_field c (w + d1 + 1) \<noteq> 0"
  shows "send c s dat reliability [d1, d2, d3, d4] w =
     ((S_returned, w + d1 + d2 + d3 + d4),
      [AtomicIncrement, AtomicDecrement, DeleteChunk (data toBeSent),
       SILOG ''tcpsst'' ''debug'' (''printing to closed stream id '' @ decimal (mID s))])"
  using send_four_steps [OF assms(1), of d1 d2 d3 d4 w] assms(2)
  by (simp add: closed_stream_log_def getID_def)

theorem C4_send_to_closing_stream_witness:
  "send_encode spec_codec stream1 hello ReliableUnordered =
     Inr \<lparr>originStream = 1, unordered = True, unreliable = False,
          data = [12, 2, 104, 101, 108, 108, 111]\<rparr> \<and>
   closing_field spec_codec (2 ^ 29 + 1 + 1) \<noteq> 0 \<and>
   send spec_codec stream1 hello ReliableUnordered [1, 0, 0, 0] (2 ^ 29) =
     ((S_returned, 2 ^ 29 + 1),
      [AtomicIncrement, AtomicDecrement, DeleteChunk [12, 2, 104, 101, 108, 108, 111],
       SILOG ''tcpsst'' ''debug'' ''printing to closed stream id 1''])"
proof -
  have enc: "send_encode spec_codec stream1 hello ReliableUnordered =
     Inr \<lparr>originStream = 1, unordered = True, unreliable = False,
          data = [12, 2, 104, 101, 108, 108, 111]\<rparr>"
    by (simp add: send_encode_hello reliability_flags_def)
  have closer: "closing_field spec_codec (2 ^ 29 + 1 + 1) \<noteq> 0"
    by (simp add: closing_field_def spec_codec_def)
  have "send spec_codec stream1 hello ReliableUnordered [1, 0, 0, 0] (2 ^ 29) =
     ((S_returned, 2 ^ 29 + 1),
      [AtomicIncrement, AtomicDecrement, DeleteChunk [12, 2, 104, 101, 108, 108, 111],
       SILOG ''tcpsst'' ''debug'' ''printing to closed stream id 1''])"
    using C4_send_to_closing_stream [OF enc closer, of 0 0 0]
    by (simp add: stream1_def decimal_1)
  with enc closer show ?thesis by blast
qed

section \<open>Claims about closeSendStatus and close\<close>

lemma run_returned:
  "run_call (closeSendStatus_step c) ds (CS_returned incd, w) =
     ((CS_returned incd, w + sum_list ds), [])"
  by (induction ds arbitrary: w) (simp_all add: add.assoc)

lemma run_spin:
  "run_call (closeSendStatus_step c) ds (CS_spin incd, w) =
     ((if \<exists>v \<in> set (reads w ds). drained_value c v then CS_returned incd else CS_spin incd,
       w + sum_list ds), [])"
proof (induction ds arbitrary: w)
  case Nil
  then show ?case by simp
next
  case (Cons d ds)
  show ?case
  proof (cases "drained_value c (w + d)")
    case True
    then show ?thesis
      by (auto simp: drained_value_def run_returned add.assoc)
  next
    case False
    then show ?thesis
      by (simp add: drained_value_def Cons.IH add.assoc)
  qed
qed

lemma closeSendStatus_two_steps:
  "closeSendStatus c (d1 # d2 # ds) w =
     (if closing_field c (w + d1) = 0
      then ((if \<exists>v \<in> set (reads (w + d1 + d2 + SendStatusClosing c) ds). drained_value c v
             then CS_returned True else CS_spin True,
             w + d1 + d2 + SendStatusClosing c + sum_list ds),
            [AtomicAdd (SendStatusClosing c)])
      else ((if \<exists>v \<in> set (reads (w + d1 + d2) ds). drained_value c v
             then CS_returned False else CS_spin False,
             w + d1 + d2 + sum_list ds),
            []))"
  by (simp add: closeSendStatus_def run_spin)

lemma close_after_returned:
  "run_call (close_step c s) ds (Cl_returned, w) = ((Cl_returned, w + sum_list ds), [])"
  by (induction ds arbitrary: w) (simp_all add: add.assoc)

lemma close_after_removed:
  "mSocket s = Some a \<Longrightarrow>
   run_call (close_step c s) ds (Cl_callbacks_removed, w) =
     ((if ds = [] then Cl_callbacks_removed else Cl_returned, w + sum_list ds),
      if ds = [] then [] else [CloseStream a (mID s)])"
  by (cases ds) (simp_all add: close_after_returned getID_def add.assoc)

lemma length_reads: "length (reads w ds) = length ds"
  by (induction ds arbitrary: w) simp_all

lemma close_after_wait:
  "mSocket s = Some a \<Longrightarrow>
   run_call (close_step c s) ds (Cl_closeSendStatus (CS_returned incd), w) =
     ((if length ds = 0 then Cl_closeSendStatus (CS_returned incd)
       else if length ds = 1 then Cl_callbacks_removed else Cl_returned,
       w + sum_list ds),
      if length ds \<le> 0 then []
      else if length ds = 1 then [AddCallbacksNULL a (mID s)]
      else [AddCallbacksNULL a (mID s), CloseStream a (mID s)])"
  by (cases ds) (simp_all add: close_after_removed getID_def add.assoc)

lemma close_spin:
  assumes sock: "mSocket s = Some a"
  shows "run_call (close_step c s) ds (Cl_closeSendStatus (CS_spin incd), w) =
     (let left = length ds - length (takeWhile (\<lambda>v. \<not> drained_value c v) (reads w ds))
      in ((if left = 0 then Cl_closeSendStatus (CS_spin incd)
           else if left = 1 then Cl_closeSendStatus (CS_returned incd)
           else if left = 2 then Cl_callbacks_removed else Cl_returned,
           w + sum_list ds),
          if left \<le> 1 then []
          else if left = 2 then [AddCallbacksNULL a (mID s)]
          else [AddCallbacksNULL a (mID s), CloseStream a (mID s)]))"
proof (induction ds arbitrary: w)
  case Nil
  then show ?case by simp
next
  case (Cons d ds)
  show ?case
  proof (cases "drained_value c (w + d)")
    case True
    then have step: "close_step c s (Cl_closeSendStatus (CS_spin incd), w + d) =
        ((Cl_closeSendStatus (CS_returned incd), w + d), [])"
      by (auto simp: drained_value_def)
    have run: "run_call (close_step c s) (d # ds) (Cl_closeSendStatus (CS_spin incd), w) =
        run_call (close_step c s) ds (Cl_closeSendStatus (CS_returned incd), w + d)"
      unfolding run_call.simps step by (simp add: case_prod_beta)
    have tw: "takeWhile (\<lambda>v. \<not> drained_value c v) (reads w (d # ds)) = []"
      using True by simp
    show ?thesis
      unfolding run tw close_after_wait [OF sock]
      by (simp add: add.assoc Let_def)
  next
    case False
    then have step: "close_step c s (Cl_closeSendStatus (CS_spin incd), w + d) =
        ((Cl_closeSendStatus (CS_spin incd), w + d), [])"
      by (auto simp: drained_value_def)
    have le: "length (takeWhile (\<lambda>v. \<not> drained_value c v) (reads (w + d) ds)) \<le> length ds"
      using length_takeWhile_le [of "\<lambda>v. \<not> drained_value c v" "reads (w + d) ds"]
      by (simp add: length_reads)
    have run: "run_call (close_step c s) (d # ds) (Cl_closeSendStatus (CS_spin incd), w) =
        run_call (close_step c s) ds (Cl_closeSendStatus (CS_spin incd), w + d)"
      unfolding run_call.simps step by (simp add: case_prod_beta)
    have tw: "takeWhile (\<lambda>v. \<not> drained_value c v) (reads w (d # ds)) =
        (w + d) # takeWhile (\<lambda>v. \<not> drained_value c v) (reads (w + d) ds)"
      using False by simp
    show ?thesis
      unfolding run tw Cons.IH using le
      by (simp add: add.assoc Let_def Suc_diff_le)
  qed
qed

text \<open>
  C1, as stated, fails. With one closer present and one sender in flight (the word at
  \<open>2 ^ 29 + 1\<close>) a call of \<^verbatim>\<open>closeSendStatus\<close> adds nothing to the word and is still in
  its loop after three reads; with one closer present and no sender it returns with the
  word still at \<open>2 ^ 29\<close>.
\<close>

theorem C1_closer_present_no_add_and_spin:
  "closeSendStatus spec_codec [0, 0, 0, 0, 0] (2 ^ 29 + 1) = ((CS_spin False, 2 ^ 29 + 1), []) \<and>
   closeSendStatus spec_codec [0, 0, 0] (2 ^ 29) = ((CS_returned False, 2 ^ 29), [])"
  by (simp add: closeSendStatus_def spec_codec_def closing_field_def)

text \<open>
  C1, amended. A call of \<^verbatim>\<open>closeSendStatus\<close> whose initial read finds a closer present
  (closing field non-zero) adds nothing to the word and still enters the spin-wait; a
  call whose initial read finds no closer adds \<^verbatim>\<open>SendStatusClosing\<close> once. In both cases
  the wait ends exactly when one of its reads of the word returns \<open>K\<close>, \<open>2K\<close> or \<open>3K\<close>
  for \<open>K = SendStatusClosing\<close>; until then the call stays in the loop.
\<close>

theorem C1_closeSendStatus:
  "(closing_field c (w + d1) \<noteq> 0 \<longrightarrow>
      closeSendStatus c (d1 # d2 # ds) w =
        ((if \<exists>v \<in> set (reads (w + d1 + d2) ds).
                v = SendStatusClosing c \<or> v = 2 * SendStatusClosing c
                  \<or> v = 3 * SendStatusClosing c
          then CS_returned False else CS_spin False,
          w + d1 + d2 + sum_list ds),
         [])) \<and>
   (closing_field c (w + d1) = 0 \<longrightarrow>
      closeSendStatus c (d1 # d2 # ds) w =
        ((if \<exists>v \<in> set (reads (w + d1 + d2 + SendStatusClosing c) ds).
                v = SendStatusClosing c \<or> v = 2 * SendStatusClosing c
                  \<or> v = 3 * SendStatusClosing c
          then CS_returned True else CS_spin True,
          w + d1 + d2 + SendStatusClosing c + sum_list ds),
         [AtomicAdd (SendStatusClosing c)]))"
  by (simp add: closeSendStatus_two_steps drained_value_def)

theorem C1_closeSendStatus_witness:
  "closing_field spec_codec (2 ^ 29 + 1 + 0) \<noteq> 0 \<and>
   closeSendStatus spec_codec [0, 0, 0, 0, - 1, 0] (2 ^ 29 + 1) =
     ((CS_returned False, 2 ^ 29), []) \<and>
   closing_field spec_codec (1 + 0) = 0 \<and>
   closeSendStatus spec_codec [0, 0, 0, 0, - 1, 0] 1 =
     ((CS_returned True, 2 ^ 29), [AtomicAdd (2 ^ 29)])"
proof -
  have present: "closing_field spec_codec (2 ^ 29 + 1 + 0) \<noteq> 0"
    by (simp add: closing_field_def spec_codec_def)
  have absent: "closing_field spec_codec (1 + 0) = 0"
    by (simp add: closing_field_def spec_codec_def)
  have "closeSendStatus spec_codec [0, 0, 0, 0, - 1, 0] (2 ^ 29 + 1) =
     ((CS_returned False, 2 ^ 29), [])"
    using present C1_closeSendStatus [of spec_codec "2 ^ 29 + 1" 0 0 "[0, 0, - 1, 0]"]
    by (simp add: spec_codec_def)
  moreover have "closeSendStatus spec_codec [0, 0, 0, 0, - 1, 0] 1 =
     ((CS_returned True, 2 ^ 29), [AtomicAdd (2 ^ 29)])"
    using absent C1_closeSendStatus [of spec_codec 1 0 0 "[0, 0, - 1, 0]"]
    by (simp add: spec_codec_def)
  ultimately show ?thesis using present absent by blast
qed

text \<open>
  C6, as stated, fails. A call of \<^verbatim>\<open>close\<close> that finds a closer present (the word at
  \<open>2 ^ 29\<close>) does not acquire the closing slot: it adds nothing to the word and goes on to
  the two calls into the socket. A call on a stream without a socket takes the slot and
  then stops at \<^verbatim>\<open>mSocket->\<close>, with no call into a socket.
\<close>

theorem C6_close_without_slot_or_socket:
  "close spec_codec stream1 [0, 0, 0, 0, 0] (2 ^ 29) =
     ((Cl_returned, 2 ^ 29), [AddCallbacksNULL 0 1, CloseStream 0 1]) \<and>
   close spec_codec fresh_stream [0, 0, 0, 0, 0] 0 =
     ((Cl_failed NullDereference, 2 ^ 29), [AtomicAdd (2 ^ 29)])"
  by (simp add: close_def spec_codec_def closing_field_def stream1_def fresh_stream_def
        getID_def)

text \<open>
  C6, amended. On a stream that holds a socket reference, every call of \<^verbatim>\<open>close\<close> goes
  through this sequence and no other, under every interleaving. First
  \<^verbatim>\<open>closeSendStatus\<close>: it adds \<^verbatim>\<open>SendStatusClosing\<close> to the word exactly when its initial read
  finds no closer present, and in either case stays in its loop until one of its reads
  of the word returns \<open>K\<close>, \<open>2K\<close> or \<open>3K\<close>. Then \<^verbatim>\<open>addCallbacks(id, NULL)\<close>, one step after
  that read, and then \<^verbatim>\<open>closeStream(id)\<close>, after which the call has returned. Below,
  \<open>left\<close> counts the steps the call is given from that read on, and is 0 while no read
  has returned one of the three values.
\<close>

theorem C6_close_sequence:
  assumes "mSocket s = Some a"
  shows "close c s (d1 # d2 # ds) w =
    (let K = SendStatusClosing c;
         incd = (closing_field c (w + d1) = 0);
         w2 = (if incd then w + d1 + d2 + K else w + d1 + d2);
         left = length ds
                  - length (takeWhile (\<lambda>v. v \<noteq> K \<and> v \<noteq> 2 * K \<and> v \<noteq> 3 * K) (reads w2 ds))
     in ((if left = 0 then Cl_closeSendStatus (CS_spin incd)
          else if left = 1 then Cl_closeSendStatus (CS_returned incd)
          else if left = 2 then Cl_callbacks_removed
          else Cl_returned,
          w2 + sum_list ds),
         (if incd then [AtomicAdd K] else []) @
         (if left \<le> 1 then []
          else if left = 2 then [AddCallbacksNULL a (mID s)]
          else [AddCallbacksNULL a (mID s), CloseStream a (mID s)])))"
proof -
  have nd: "(\<lambda>v. \<not> drained_value c v) =
      (\<lambda>v. v \<noteq> SendStatusClosing c \<and> v \<noteq> 2 * SendStatusClosing c
             \<and> v \<noteq> 3 * SendStatusClosing c)"
    by (simp add: drained_value_def fun_eq_iff)
  have two: "close c s (d1 # d2 # ds) w =
      (let (cfg, es) = run_call (close_step c s) ds
             (Cl_closeSendStatus (CS_spin (closing_field c (w + d1) = 0)),
              if closing_field c (w + d1) = 0 then w + d1 + d2 + SendStatusClosing c
              else w + d1 + d2)
       in (cfg, (if closing_field c (w + d1) = 0 then [AtomicAdd (SendStatusClosing c)] else [])
                  @ es))"
    by (simp add: close_def case_prod_beta)
  show ?thesis
    unfolding two close_spin [OF assms] nd
    by (simp add: Let_def)
qed

theorem C6_close_sequence_witness:
  "mSocket stream1 = Some 0 \<and>
   close spec_codec stream1 [0, 0, 0, - 1, 0, 0] 1 =
     ((Cl_returned, 2 ^ 29), [AtomicAdd (2 ^ 29), AddCallbacksNULL 0 1, CloseStream 0 1]) \<and>
   close spec_codec stream1 [0, 0, 0, 0, 0, 0] (2 ^ 29 + 1) =
     ((Cl_closeSendStatus (CS_spin False), 2 ^ 29 + 1), [])"
proof -
  have sock: "mSocket stream1 = Some 0" by (simp add: stream1_def)
  have "close spec_codec stream1 [0, 0, 0, - 1, 0, 0] 1 =
     ((Cl_returned, 2 ^ 29), [AtomicAdd (2 ^ 29), AddCallbacksNULL 0 1, CloseStream 0 1])"
    using C6_close_sequence [OF sock, of spec_codec 0 0 "[0, - 1, 0, 0]" 1]
    by (simp add: spec_codec_def closing_field_def stream1_def Let_def)
  moreover have "close spec_codec stream1 [0, 0, 0, 0, 0, 0] (2 ^ 29 + 1) =
     ((Cl_closeSendStatus (CS_spin False), 2 ^ 29 + 1), [])"
    using C6_close_sequence [OF sock, of spec_codec 0 0 "[0, 0, 0, 0]" "2 ^ 29 + 1"]
    by (simp add: spec_codec_def closing_field_def stream1_def Let_def)
  ultimately show ?thesis using sock by simp
qed

section \<open>Claims about cloneFrom\<close>

text \<open>
  C7. \<^verbatim>\<open>cloneFrom\<close> returns false in exactly three cases: the source is not a
  \<^verbatim>\<open>TCPStream\<close> (the cast yields null), the source's socket reference is null, or
  \<^verbatim>\<open>addCallbacks\<close> reports \<open>DISCONNECTED\<close>. Otherwise it returns true, having taken the
  source's socket reference, the id returned by \<^verbatim>\<open>getNewID\<close> on that socket, and having
  installed the given callbacks under that id.
\<close>

theorem C7_cloneFrom_result:
  "(fst (cloneFrom ops this sockets otherStream cc brc) = False \<longleftrightarrow>
      dynamic_cast_TCPStream otherStream = None
      \<or> (\<exists>t. dynamic_cast_TCPStream otherStream = Some t \<and> mSocket t = None)
      \<or> (\<exists>t a. dynamic_cast_TCPStream otherStream = Some t \<and> mSocket t = Some a \<and>
            fst (addCallbacks ops (snd (getNewID ops (sockets a))) (fst (getNewID ops (sockets a)))
                   (Some \<lparr>mConnectionCallback = cc, mBytesReceivedCallback = brc,
                          mSendStatusPointer = mSendStatus this\<rparr>)) = DISCONNECTED)) \<and>
   (fst (cloneFrom ops this sockets otherStream cc brc) \<longrightarrow>
      (\<exists>t a. dynamic_cast_TCPStream otherStream = Some t \<and> mSocket t = Some a \<and>
         cloneFrom ops this sockets otherStream cc brc =
           (True,
            this\<lparr>mSocket := Some a, mID := fst (getNewID ops (sockets a))\<rparr>,
            sockets(a := snd (addCallbacks ops (snd (getNewID ops (sockets a)))
                                (fst (getNewID ops (sockets a)))
                                (Some \<lparr>mConnectionCallback = cc, mBytesReceivedCallback = brc,
                                       mSendStatusPointer = mSendStatus this\<rparr>))))))"
proof (cases "dynamic_cast_TCPStream otherStream")
  case None
  then show ?thesis by (simp add: cloneFrom_def)
next
  case (Some t)
  show ?thesis
  proof (cases "mSocket t")
    case None
    with Some show ?thesis by (simp add: cloneFrom_def)
  next
    case (Some a)
    with \<open>dynamic_cast_TCPStream otherStream = Some t\<close> show ?thesis
      by (simp add: cloneFrom_def Let_def case_prod_beta)
  qed
qed

theorem C7_cloneFrom_result_witness:
  "fst (cloneFrom spec_socket_ops fresh_stream (\<lambda>_. socket3 Connected)
          (Some (TCPStream_object stream1)) () ()) \<and>
   fst (snd (cloneFrom spec_socket_ops fresh_stream (\<lambda>_. socket3 Connected)
          (Some (TCPStream_object stream1)) () ())) =
     \<lparr>mSocket = Some 0, mID = 3, mSendStatus = 7\<rparr> \<and>
   callback_table
     (snd (snd (cloneFrom spec_socket_ops fresh_stream (\<lambda>_. socket3 Connected)
          (Some (TCPStream_object stream1)) () ())) 0) 3 =
     Some \<lparr>mConnectionCallback = (), mBytesReceivedCallback = (), mSendStatusPointer = 7\<rparr> \<and>
   fst (cloneFrom spec_socket_ops fresh_stream (\<lambda>_. socket3 Connected)
          (Some Other_Stream_object) () ()) = False"
proof -
  have t: "fst (cloneFrom spec_socket_ops fresh_stream (\<lambda>_. socket3 Connected)
          (Some (TCPStream_object stream1)) () ())"
    by (simp add: cloneFrom_def spec_socket_ops_def new_id_def add_callbacks_def socket3_def
          stream1_def fresh_stream_def)
  from t C7_cloneFrom_result [of spec_socket_ops fresh_stream "\<lambda>_. socket3 Connected"
      "Some (TCPStream_object stream1)" "()" "()"]
  have "cloneFrom spec_socket_ops fresh_stream (\<lambda>_. socket3 Connected)
          (Some (TCPStream_object stream1)) () () =
        (True, \<lparr>mSocket = Some 0, mID = 3, mSendStatus = 7\<rparr>,
         (\<lambda>_. socket3 Connected)
           (0 := \<lparr>next_local_stream_id = 5, socket_state = Connected,
                  callback_table = (\<lambda>_. None)(3 \<mapsto>
                    \<lparr>mConnectionCallback = (), mBytesReceivedCallback = (),
                     mSendStatusPointer = 7\<rparr>)\<rparr>))"
    by (simp add: spec_socket_ops_def new_id_def add_callbacks_def socket3_def
          stream1_def fresh_stream_def)
  moreover
  from C7_cloneFrom_result [of spec_socket_ops fresh_stream "\<lambda>_. socket3 Connected"
      "Some Other_Stream_object" "()" "()"]
  have "fst (cloneFrom spec_socket_ops fresh_stream (\<lambda>_. socket3 Connected)
          (Some Other_Stream_object) () ()) = False"
    by simp
  ultimately show ?thesis by simp
qed

text \<open>
  C10. When \<^verbatim>\<open>cloneFrom\<close> fails because \<^verbatim>\<open>addCallbacks\<close> reports \<open>DISCONNECTED\<close>, the
  stream has already taken the source's socket reference and keeps the id returned by
  \<^verbatim>\<open>getNewID\<close>, and the socket is left in the state that \<^verbatim>\<open>getNewID\<close> and then
  \<^verbatim>\<open>addCallbacks\<close> produced: the allocation of the id is not undone.
\<close>

theorem C10_failed_clone_not_atomic:
  assumes "dynamic_cast_TCPStream otherStream = Some t"
    and "mSocket t = Some a"
    and "fst (addCallbacks ops (snd (getNewID ops (sockets a))) (fst (getNewID ops (sockets a)))
                (Some \<lparr>mConnectionCallback = cc, mBytesReceivedCallback = brc,
                       mSendStatusPointer = mSendStatus this\<rparr>)) = DISCONNECTED"
  shows "cloneFrom ops this sockets otherStream cc brc =
           (False,
            this\<lparr>mSocket := Some a, mID := fst (getNewID ops (sockets a))\<rparr>,
            sockets(a := snd (addCallbacks ops (snd (getNewID ops (sockets a)))
                                (fst (getNewID ops (sockets a)))
                                (Some \<lparr>mConnectionCallback = cc, mBytesReceivedCallback = brc,
                                       mSendStatusPointer = mSendStatus this\<rparr>))))"
  using assms by (simp add: cloneFrom_def Let_def case_prod_beta)

theorem C10_failed_clone_not_atomic_witness:
  "fst (cloneFrom spec_socket_ops fresh_stream (\<lambda>_. socket3 Disconnected)
          (Some (TCPStream_object stream1)) () ()) = False \<and>
   fst (snd (cloneFrom spec_socket_ops fresh_stream (\<lambda>_. socket3 Disconnected)
          (Some (TCPStream_object stream1)) () ())) =
     \<lparr>mSocket = Some 0, mID = 3, mSendStatus = 7\<rparr> \<and>
   next_local_stream_id (socket3 Disconnected) = 3 \<and>
   next_local_stream_id
     (snd (snd (cloneFrom spec_socket_ops fresh_stream (\<lambda>_. socket3 Disconnected)
          (Some (TCPStream_object stream1)) () ())) 0) = 5"
proof -
  have c: "dynamic_cast_TCPStream (Some (TCPStream_object stream1)) = Some stream1"
    by simp
  have m: "mSocket stream1 = Some 0" by (simp add: stream1_def)
  have d: "fst (addCallbacks spec_socket_ops
                  (snd (getNewID spec_socket_ops ((\<lambda>_. socket3 Disconnected) 0)))
                  (fst (getNewID spec_socket_ops ((\<lambda>_. socket3 Disconnected) 0)))
                  (Some \<lparr>mConnectionCallback = (), mBytesReceivedCallback = (),
                         mSendStatusPointer = mSendStatus fresh_stream\<rparr>)) = DISCONNECTED"
    by (simp add: spec_socket_ops_def new_id_def add_callbacks_def socket3_def)
  from C10_failed_clone_not_atomic [OF c m d] show ?thesis
    by (simp add: spec_socket_ops_def new_id_def add_callbacks_def socket3_def
          fresh_stream_def)
qed

section \<open>Claims about IOServiceFactory\<close>

lemma initializer_keeps_pointer:
  "singleton_io_pointer (fst (io_service_initializer f io_ret)) = singleton_io_pointer f"
  by (simp add: io_service_initializer_def)

lemma call_once_keeps_pointer:
  "singleton_io_pointer (call_once_io_service_initializer f) = singleton_io_pointer f"
  by (simp add: call_once_io_service_initializer_def initializer_keeps_pointer)

lemma delete_keeps_pointer:
  "singleton_io_pointer (delete_IOService f io) = singleton_io_pointer f"
  by (simp add: delete_IOService_def split: option.splits)

lemma step_keeps_pointer:
  "singleton_io_pointer (factory_call_step f call) = singleton_io_pointer f"
  by (cases call)
     (simp_all add: singletonIOService_def makeIOService_def destroyIOService_def
        call_once_keeps_pointer delete_keeps_pointer split: option.splits)

lemma foldl_keeps_pointer:
  "singleton_io_pointer (foldl factory_call_step f calls) = singleton_io_pointer f"
  by (induction calls arbitrary: f) (simp_all add: step_keeps_pointer)

text \<open>
  C9. \<^verbatim>\<open>io_service_initializer\<close> assigns the singleton's address to its by-value
  parameter only: the static pointer of \<^verbatim>\<open>singletonIOService\<close> keeps its value across the
  initializer, is null after any sequence of calls of the factory's functions, also
  after the once-initializer has run, and every call of \<^verbatim>\<open>singletonIOService\<close>
  dereferences a null pointer.
\<close>

theorem C9_singleton_pointer_stays_null:
  "snd (io_service_initializer f io_ret) = Some static_io_address \<and>
   singleton_io_pointer (fst (io_service_initializer f io_ret)) = singleton_io_pointer f \<and>
   singleton_io_pointer (factory_after calls) = None \<and>
   io_singleton (fst (singletonIOService (factory_after calls))) \<and>
   called_io_service (fst (singletonIOService factory_initial)) \<and>
   singleton_io_pointer (fst (singletonIOService (factory_after calls))) = None \<and>
   snd (singletonIOService (factory_after calls)) = Inl NullDereference"
proof -
  have null: "singleton_io_pointer (factory_after calls) = None"
    by (simp add: factory_after_def foldl_keeps_pointer factory_initial_def)
  have once: "io_singleton (call_once_io_service_initializer g)" for g
    by (simp add: call_once_io_service_initializer_def)
  show ?thesis
    using null
    by (simp add: singletonIOService_def call_once_keeps_pointer once initializer_keeps_pointer)
       (simp add: io_service_initializer_def call_once_io_service_initializer_def
          factory_initial_def)
qed


section \<open>Claims about concurrent senders and closers\<close>














































end
